theory Spec2Isabelle
  imports Main
begin

section \<open>Python values\<close>

text \<open>
  A Python \<^verbatim>\<open>str\<close> is a sequence of Unicode code points; \<^verbatim>\<open>len\<close>, \<^verbatim>\<open>in\<close> and the
  regular expressions of the program all work on code points. A string is modelled as the
  list of its code points. The Korean literals of the program are written out by code
  point, in hexadecimal, each with a romanised name.
\<close>

type_synonym ustr = "nat list"

definition ascii :: "string \<Rightarrow> ustr" where
  "ascii s = map of_char s"

text \<open>\<^verbatim>\<open>s.startswith(p)\<close>, and Python's substring test \<^verbatim>\<open>w in s\<close>.\<close>

fun startswith :: "ustr \<Rightarrow> ustr \<Rightarrow> bool" where
  "startswith s [] = True"
| "startswith [] (p # ps) = False"
| "startswith (c # cs) (p # ps) = (c = p \<and> startswith cs ps)"

fun str_contains :: "ustr \<Rightarrow> ustr \<Rightarrow> bool" where
  "str_contains [] w = (w = [])"
| "str_contains (c # cs) w = (startswith (c # cs) w \<or> str_contains cs w)"

text \<open>
  \<^verbatim>\<open>str.strip()\<close> removes the characters for which \<^verbatim>\<open>str.isspace()\<close> holds from both
  ends.
\<close>

definition isspace :: "nat \<Rightarrow> bool" where
  "isspace c \<longleftrightarrow>
     (9 \<le> c \<and> c \<le> 13) \<or> (28 \<le> c \<and> c \<le> 32) \<or> c = 0x85 \<or> c = 0xA0 \<or> c = 0x1680 \<or>
     (0x2000 \<le> c \<and> c \<le> 0x200A) \<or> c = 0x2028 \<or> c = 0x2029 \<or> c = 0x202F \<or>
     c = 0x205F \<or> c = 0x3000"

definition strip :: "ustr \<Rightarrow> ustr" where
  "strip s = rev (dropWhile isspace (rev (dropWhile isspace s)))"

text \<open>\<^verbatim>\<open>str(n)\<close> for an integer: decimal digits, with a minus sign when negative.\<close>

fun digits :: "nat \<Rightarrow> ustr" where
  "digits n = (if n < 10 then [48 + n] else digits (n div 10) @ [48 + n mod 10])"

declare digits.simps [simp del]

definition str_int :: "int \<Rightarrow> ustr" where
  "str_int n = (if n < 0 then 45 # digits (nat (- n)) else digits (nat n))"

text \<open>
  The values that \<^verbatim>\<open>response.json()\<close> produces: \<^verbatim>\<open>None\<close>, booleans, integers, strings,
  lists and dicts. A dict is an association list in which the first binding of a key is
  the one looked up. JSON numbers with a fraction or an exponent (Python floats) are not
  part of the model.
\<close>

datatype json =
    JNull
  | JBool bool
  | JInt int
  | JStr ustr
  | JList "json list"
  | JObj "(ustr \<times> json) list"

datatype exn = TypeError | AttributeError | ValueError | KeyError

text \<open>Truth value of an object, as \<^verbatim>\<open>if x\<close> and \<^verbatim>\<open>x and ...\<close> take it.\<close>

fun truthy :: "json \<Rightarrow> bool" where
  "truthy JNull = False"
| "truthy (JBool b) = b"
| "truthy (JInt n) = (n \<noteq> 0)"
| "truthy (JStr s) = (s \<noteq> [])"
| "truthy (JList xs) = (xs \<noteq> [])"
| "truthy (JObj kvs) = (kvs \<noteq> [])"

text \<open>
  \<^verbatim>\<open>str(x)\<close>. The text of a list or a dict is Python's \<^verbatim>\<open>repr\<close> of its elements, which
  is not modelled: it is the parameter \<open>repr\<close>, and nothing is assumed about it.
\<close>

fun py_str :: "(json \<Rightarrow> ustr) \<Rightarrow> json \<Rightarrow> ustr" where
  "py_str repr JNull = ascii ''None''"
| "py_str repr (JBool b) = (if b then ascii ''True'' else ascii ''False'')"
| "py_str repr (JInt n) = str_int n"
| "py_str repr (JStr s) = s"
| "py_str repr (JList xs) = repr (JList xs)"
| "py_str repr (JObj kvs) = repr (JObj kvs)"

text \<open>\<^verbatim>\<open>d.get(key, default)\<close> on a dict.\<close>

definition dict_get :: "(ustr \<times> json) list \<Rightarrow> ustr \<Rightarrow> json \<Rightarrow> json" where
  "dict_get kvs k d = (case map_of kvs k of None \<Rightarrow> d | Some v \<Rightarrow> v)"

section \<open>Korean literals\<close>

text \<open>The denylisted tokens: "receipt", "global", "import", "conversion".\<close>

definition k_jeopsu :: ustr where "k_jeopsu = [0xC811, 0xC218]"
definition k_geullobeol :: ustr where "k_geullobeol = [0xAE00, 0xB85C, 0xBC8C]"
definition k_suip :: ustr where "k_suip = [0xC218, 0xC785]"
definition k_jeonhwan :: ustr where "k_jeonhwan = [0xC804, 0xD658]"

text \<open>
  The allowlisted tokens: "minute", "second", "after", "arrival", "entering",
  "previous station", "station", "-th".
\<close>

definition k_bun :: ustr where "k_bun = [0xBD84]"
definition k_cho :: ustr where "k_cho = [0xCD08]"
definition k_hu :: ustr where "k_hu = [0xD6C4]"
definition k_dochak :: ustr where "k_dochak = [0xB3C4, 0xCC29]"
definition k_jinip :: ustr where "k_jinip = [0xC9C4, 0xC785]"
definition k_jeonyeok :: ustr where "k_jeonyeok = [0xC804, 0xC5ED]"
definition k_yeok :: ustr where "k_yeok = [0xC5ED]"
definition k_beonjjae :: ustr where "k_beonjjae = [0xBC88, 0xC9F8]"

text \<open>
  "unknown" (U+C54C, space, U+C218, space, U+C5C6, U+C74C), the line suffix "-hoseon",
  "arriving soon" and "entering".
\<close>

definition k_al_su_eopseum :: ustr where
  "k_al_su_eopseum = [0xC54C, 0x20, 0xC218, 0x20, 0xC5C6, 0xC74C]"
definition k_hoseon :: ustr where "k_hoseon = [0xD638, 0xC120]"
definition k_got_dochak :: ustr where "k_got_dochak = [0xACE7, 0x20, 0xB3C4, 0xCC29]"
definition k_jinipjung :: ustr where "k_jinipjung = [0xC9C4, 0xC785, 0xC911]"

text \<open>The direction tokens: "up-bound", "inner loop", "up", "down-bound", "outer loop", "down".\<close>

definition k_sanghaeng :: ustr where "k_sanghaeng = [0xC0C1, 0xD589]"
definition k_naeseon :: ustr where "k_naeseon = [0xB0B4, 0xC120]"
definition k_sang :: ustr where "k_sang = [0xC0C1]"
definition k_hahaeng :: ustr where "k_hahaeng = [0xD558, 0xD589]"
definition k_oeseon :: ustr where "k_oeseon = [0xC678, 0xC120]"
definition k_ha :: ustr where "k_ha = [0xD558]"

section \<open>Line-code resolver\<close>

text \<open>
  The table of \<^verbatim>\<open>get_subway_line_name\<close>: the line ids \<^verbatim>\<open>'1001'\<close> to \<^verbatim>\<open>'1099'\<close> with
  their display names (lines 1 to 9 are the digit followed by "-hoseon").
\<close>

definition subway_line_map :: "(ustr \<times> ustr) list" where
  "subway_line_map =
    [(ascii ''1001'', ascii ''1'' @ k_hoseon),
     (ascii ''1002'', ascii ''2'' @ k_hoseon),
     (ascii ''1003'', ascii ''3'' @ k_hoseon),
     (ascii ''1004'', ascii ''4'' @ k_hoseon),
     (ascii ''1005'', ascii ''5'' @ k_hoseon),
     (ascii ''1006'', ascii ''6'' @ k_hoseon),
     (ascii ''1007'', ascii ''7'' @ k_hoseon),
     (ascii ''1008'', ascii ''8'' @ k_hoseon),
     (ascii ''1009'', ascii ''9'' @ k_hoseon),
     (ascii ''1061'', [0xC911, 0xC559, 0xC120]),
     (ascii ''1063'', [0xACBD, 0xC758, 0xC911, 0xC559, 0xC120]),
     (ascii ''1065'', [0xACF5, 0xD56D, 0xCCA0, 0xB3C4]),
     (ascii ''1067'', [0xACBD, 0xCD98, 0xC120]),
     (ascii ''1071'', [0xC218, 0xC778, 0xBD84, 0xB2F9, 0xC120]),
     (ascii ''1075'', [0xBD84, 0xB2F9, 0xC120]),
     (ascii ''1077'', [0xBD84, 0xB2F9, 0xC120]),
     (ascii ''1081'', [0xC2E0, 0xB9BC, 0xC120]),
     (ascii ''1092'', [0xC2E0, 0xBD84, 0xB2F9, 0xC120]),
     (ascii ''1093'', [0xC6A9, 0xC778, 0xACBD, 0xC804, 0xCCA0]),
     (ascii ''1094'', [0xC758, 0xC815, 0xBD80, 0xACBD, 0xC804, 0xCCA0]),
     (ascii ''1095'', [0xC6B0, 0xC774, 0xC2E0, 0xC124, 0xC120]),
     (ascii ''1096'', [0xC11C, 0xD574, 0xC120]),
     (ascii ''1097'', [0xAE40, 0xD3EC, 0xACE8, 0xB4DC, 0xB77C, 0xC778]),
     (ascii ''1099'', [0xC218, 0xC778, 0xC120])]"

text \<open>
  \<^verbatim>\<open>subway_id_str = str(subway_id) if subway_id else ''\<close>, then the table lookup with the
  default \<^verbatim>\<open>f'{subway_id_str}hoseon' if subway_id_str else 'unknown'\<close>.
\<close>

definition get_subway_line_name :: "(json \<Rightarrow> ustr) \<Rightarrow> json \<Rightarrow> ustr" where
  "get_subway_line_name repr subway_id =
     (let subway_id_str = (if truthy subway_id then py_str repr subway_id else [])
      in case map_of subway_line_map subway_id_str of
           Some name \<Rightarrow> name
         | None \<Rightarrow> (if subway_id_str \<noteq> [] then subway_id_str @ k_hoseon else k_al_su_eopseum))"

section \<open>Arrival-text classifier\<close>

text \<open>The two word lists of \<^verbatim>\<open>is_valid_station_text\<close>.\<close>

definition invalid_words_text :: "ustr list" where
  "invalid_words_text =
     [k_jeopsu, k_geullobeol, k_suip, k_jeonhwan, k_geullobeol @ [0x20] @ k_suip]"

definition valid_keywords :: "ustr list" where
  "valid_keywords =
     [k_bun, k_cho, k_hu, k_dochak, k_jinip, k_jeonyeok, k_yeok, k_beonjjae]"

text \<open>The character class of the Hangul syllables, U+AC00 to U+D7A3.\<close>

definition is_hangul :: "nat \<Rightarrow> bool" where
  "is_hangul c \<longleftrightarrow> 0xAC00 \<le> c \<and> c \<le> 0xD7A3"

text \<open>
  Whether \<^verbatim>\<open>re.match\<close> finds the pattern "start, two to four Hangul syllables, end" in
  \<open>t\<close>. Without the multi-line flag the end anchor also matches before a final newline.
\<close>

definition re_match_station :: "ustr \<Rightarrow> bool" where
  "re_match_station t =
     (let body = (if t \<noteq> [] \<and> last t = 10 then butlast t else t)
      in 2 \<le> length body \<and> length body \<le> 4 \<and> list_all is_hangul body)"

definition is_valid_station_text :: "ustr \<Rightarrow> bool" where
  "is_valid_station_text text =
     (if text = [] then False
      else if list_ex (str_contains text) invalid_words_text then False
      else if list_ex (str_contains text) valid_keywords then True
      else if re_match_station (strip text) then True
      else False)"

section \<open>Arrival normaliser\<close>

text \<open>
  \<^verbatim>\<open>int(s)\<close> for a string: white space around an optional sign and decimal digits,
  with single underscores allowed between digits; \<open>None\<close> stands for \<^verbatim>\<open>ValueError\<close>.
  \<^verbatim>\<open>int\<close> skips the white space of \<^verbatim>\<open>isspace\<close> except the four separators U+001C to
  U+001F. The decimal digits of other scripts, which \<^verbatim>\<open>int\<close> also reads, and the
  interpreter's limit on the number of digits are not modelled.
\<close>

definition is_digit :: "nat \<Rightarrow> bool" where
  "is_digit c \<longleftrightarrow> 48 \<le> c \<and> c \<le> 57"

definition int_space :: "nat \<Rightarrow> bool" where
  "int_space c \<longleftrightarrow> isspace c \<and> \<not> (28 \<le> c \<and> c \<le> 31)"

fun digits_value :: "int \<Rightarrow> ustr \<Rightarrow> int option" where
  "digits_value acc [] = Some acc"
| "digits_value acc [c] = (if is_digit c then Some (10 * acc + int (c - 48)) else None)"
| "digits_value acc (c # d # ds) =
     (if is_digit c then digits_value (10 * acc + int (c - 48)) (d # ds)
      else if c = 95 \<and> is_digit d then digits_value (10 * acc + int (d - 48)) ds
      else None)"

definition unsigned_value :: "ustr \<Rightarrow> int option" where
  "unsigned_value s =
     (case s of
        [] \<Rightarrow> None
      | c # cs \<Rightarrow> if is_digit c then digits_value (int (c - 48)) cs else None)"

definition int_of_str :: "ustr \<Rightarrow> int option" where
  "int_of_str s =
     (case rev (dropWhile int_space (rev (dropWhile int_space s))) of
        [] \<Rightarrow> None
      | c # cs \<Rightarrow>
          if c = 45 then map_option uminus (unsigned_value cs)
          else if c = 43 then unsigned_value cs
          else unsigned_value (c # cs))"

text \<open>\<^verbatim>\<open>int(x)\<close> on a value.\<close>

fun py_int :: "json \<Rightarrow> exn + int" where
  "py_int (JBool b) = Inr (if b then 1 else 0)"
| "py_int (JInt n) = Inr n"
| "py_int (JStr s) = (case int_of_str s of None \<Rightarrow> Inl ValueError | Some n \<Rightarrow> Inr n)"
| "py_int JNull = Inl TypeError"
| "py_int (JList xs) = Inl TypeError"
| "py_int (JObj kvs) = Inl TypeError"

text \<open>
  \<^verbatim>\<open>try: barvl_seconds = int(barvl_dt) if barvl_dt else 0\<close> with
  \<^verbatim>\<open>except (ValueError, TypeError): barvl_seconds = 0\<close>.
\<close>

definition barvl_seconds_of :: "json \<Rightarrow> exn + int" where
  "barvl_seconds_of barvl_dt =
     (case (if truthy barvl_dt then py_int barvl_dt else Inr 0) of
        Inr n \<Rightarrow> Inr n
      | Inl e \<Rightarrow> if e = ValueError \<or> e = TypeError then Inr 0 else Inl e)"

text \<open>The human time string computed from the seconds (the block after the parse).\<close>

definition time_str_of :: "int \<Rightarrow> ustr" where
  "time_str_of barvl_seconds =
     (if barvl_seconds > 0 then
        (let minutes = barvl_seconds div 60; seconds = barvl_seconds mod 60
         in if minutes > 0 \<and> seconds > 0 then
              str_int minutes @ k_bun @ [0x20] @ str_int seconds @ k_cho @ [0x20] @ k_hu
            else if minutes > 0 then str_int minutes @ k_bun @ [0x20] @ k_hu
            else if seconds > 0 then str_int seconds @ k_cho @ [0x20] @ k_hu
            else k_got_dochak)
      else k_dochak)"

text \<open>\<^verbatim>\<open>x.strip()\<close> on a value: only a string has the method.\<close>

fun py_strip :: "json \<Rightarrow> exn + ustr" where
  "py_strip (JStr s) = Inr (strip s)"
| "py_strip v = Inl AttributeError"

text \<open>The denylist of \<^verbatim>\<open>parse_train_info\<close> and the scrub of one message field.\<close>

definition invalid_words :: "ustr list" where
  "invalid_words = [k_jeopsu, k_geullobeol, k_suip, k_jeonhwan]"

definition scrub :: "ustr \<Rightarrow> ustr" where
  "scrub msg = (if list_ex (str_contains msg) invalid_words then [] else msg)"

text \<open>
  The choice of status and display time, from \<^verbatim>\<open>is_valid_msg2\<close>, the scrubbed
  \<^verbatim>\<open>arvl_msg2\<close>, the seconds, the time string and \<^verbatim>\<open>arvl_cd\<close>.
\<close>

definition status_and_time :: "bool \<Rightarrow> ustr \<Rightarrow> int \<Rightarrow> ustr \<Rightarrow> json \<Rightarrow> ustr \<times> ustr" where
  "status_and_time is_valid_msg2 arvl_msg2 barvl_seconds time_str arvl_cd =
     (if is_valid_msg2 \<and>
         (str_contains arvl_msg2 k_bun \<or> str_contains arvl_msg2 k_cho \<or>
          str_contains arvl_msg2 k_hu)
      then (arvl_msg2, arvl_msg2)
      else if is_valid_msg2 \<and>
         (str_contains arvl_msg2 k_dochak \<or> str_contains arvl_msg2 k_jinip)
      then (arvl_msg2, if barvl_seconds > 0 then time_str else k_dochak)
      else if is_valid_msg2 \<and> str_contains arvl_msg2 k_jeonyeok
      then (arvl_msg2, if barvl_seconds > 0 then time_str else k_dochak)
      else if barvl_seconds > 0 then (time_str, time_str)
      else if arvl_cd = JStr (ascii ''0'') then (k_dochak, k_dochak)
      else if arvl_cd = JStr (ascii ''1'') then (k_jinipjung, k_jinipjung)
      else (k_dochak, k_dochak))"

text \<open>
  \<^verbatim>\<open>re.search\<close> for an opening parenthesis, one or more Hangul syllables and a closing
  parenthesis: group 1 of the leftmost match. The class excludes the closing parenthesis,
  so at each position only the longest run of syllables can match.
\<close>

definition paren_group_at :: "ustr \<Rightarrow> ustr option" where
  "paren_group_at s =
     (case s of
        [] \<Rightarrow> None
      | c # cs \<Rightarrow>
          if c = 40 \<and> takeWhile is_hangul cs \<noteq> [] \<and> startswith (dropWhile is_hangul cs) [41]
          then Some (takeWhile is_hangul cs) else None)"

fun re_search_paren :: "ustr \<Rightarrow> ustr option" where
  "re_search_paren [] = None"
| "re_search_paren (c # cs) =
     (case paren_group_at (c # cs) of Some g \<Rightarrow> Some g | None \<Rightarrow> re_search_paren cs)"

text \<open>The current location, before the final filter.\<close>

definition current_location_of :: "bool \<Rightarrow> ustr \<Rightarrow> ustr \<Rightarrow> ustr" where
  "current_location_of is_valid_msg2 arvl_msg2 arvl_msg3 =
     (if is_valid_station_text arvl_msg3 then arvl_msg3
      else if is_valid_msg2 \<and>
              \<not> (str_contains arvl_msg2 k_bun \<or> str_contains arvl_msg2 k_cho) then
        (case re_search_paren arvl_msg2 of
           Some g \<Rightarrow> g
         | None \<Rightarrow>
             if length arvl_msg2 \<le> 4 \<and> is_valid_station_text arvl_msg2 then arvl_msg2
             else [])
      else [])"

text \<open>
  The final filter: the test for a denylisted token, and the replacement applied to the
  status and, in the same way, to the display time.
\<close>

definition has_invalid_word :: "ustr \<Rightarrow> bool" where
  "has_invalid_word s \<longleftrightarrow>
     str_contains s k_jeopsu \<or> str_contains s k_geullobeol \<or> str_contains s k_suip \<or>
     str_contains s k_jeonhwan"

definition final_filter :: "int \<Rightarrow> ustr \<Rightarrow> ustr \<Rightarrow> ustr" where
  "final_filter barvl_seconds time_str s =
     (if has_invalid_word s then (if barvl_seconds > 0 then time_str else k_dochak) else s)"

text \<open>The dict that \<^verbatim>\<open>parse_train_info\<close> returns; the key \<^verbatim>\<open>'time'\<close> is \<open>time\<close>.\<close>

record train_info =
  direction :: json
  status :: ustr
  time :: ustr
  current :: ustr
  subway_line :: json
  subway_line_name :: ustr
  updn_line :: json
  is_last_train :: bool

text \<open>
  \<^verbatim>\<open>parse_train_info\<close>. \<^verbatim>\<open>train_data.get\<close> raises \<^verbatim>\<open>AttributeError\<close> unless
  \<^verbatim>\<open>train_data\<close> is a dict, and so does \<^verbatim>\<open>.strip()\<close> on a message that is not a
  string. \<^verbatim>\<open>lstcar_at == 1\<close> holds for the integer 1 and for \<^verbatim>\<open>True\<close>.
\<close>

definition parse_train_info :: "(json \<Rightarrow> ustr) \<Rightarrow> json \<Rightarrow> exn + train_info" where
  "parse_train_info repr train_data =
     (case train_data of
        JObj d \<Rightarrow>
          (case barvl_seconds_of (dict_get d (ascii ''barvlDt'') (JStr (ascii ''0''))) of
             Inl e \<Rightarrow> Inl e
           | Inr barvl_seconds \<Rightarrow>
          (case py_strip (dict_get d (ascii ''arvlMsg2'') (JStr [])) of
             Inl e \<Rightarrow> Inl e
           | Inr msg2 \<Rightarrow>
          (case py_strip (dict_get d (ascii ''arvlMsg3'') (JStr [])) of
             Inl e \<Rightarrow> Inl e
           | Inr msg3 \<Rightarrow>
             (let time_str = time_str_of barvl_seconds;
                  arvl_cd = dict_get d (ascii ''arvlCd'') (JStr []);
                  arvl_msg2 = scrub msg2;
                  arvl_msg3 = scrub msg3;
                  is_valid_msg2 =
                    (if arvl_msg2 \<noteq> [] then is_valid_station_text arvl_msg2 else False);
                  st = status_and_time is_valid_msg2 arvl_msg2 barvl_seconds time_str arvl_cd;
                  current_location = current_location_of is_valid_msg2 arvl_msg2 arvl_msg3;
                  status = final_filter barvl_seconds time_str (fst st);
                  time_display = final_filter barvl_seconds time_str (snd st);
                  current_location =
                    (if has_invalid_word current_location then [] else current_location);
                  lstcar_at = dict_get d (ascii ''lstcarAt'') (JStr (ascii ''0''));
                  is_last_train =
                    (lstcar_at = JStr (ascii ''1'') \<or> lstcar_at = JInt 1 \<or>
                     lstcar_at = JBool True);
                  subway_id = dict_get d (ascii ''subwayId'') (JStr [])
              in Inr \<lparr>direction = dict_get d (ascii ''bstatnNm'') (JStr k_al_su_eopseum),
                      status = status,
                      time = time_display,
                      current =
                        (if current_location \<noteq> [] then current_location else k_al_su_eopseum),
                      subway_line = subway_id,
                      subway_line_name = get_subway_line_name repr subway_id,
                      updn_line = dict_get d (ascii ''updnLine'') (JStr []),
                      is_last_train = is_last_train\<rparr>))))
      | _ \<Rightarrow> Inl AttributeError)"

section \<open>Feed fetcher\<close>

text \<open>
  \<^verbatim>\<open>w in x\<close> for a string \<open>w\<close>: a substring of a string, an element of a list, a key of a
  dict; \<^verbatim>\<open>TypeError\<close> on a value that is no container.
\<close>

fun py_in :: "ustr \<Rightarrow> json \<Rightarrow> exn + bool" where
  "py_in w (JStr s) = Inr (str_contains s w)"
| "py_in w (JList xs) = Inr (JStr w \<in> set xs)"
| "py_in w (JObj kvs) = Inr (map_of kvs w \<noteq> None)"
| "py_in w v = Inl TypeError"

text \<open>\<^verbatim>\<open>x[key]\<close> for a string key, and the method call \<^verbatim>\<open>x.get(key, default)\<close>.\<close>

fun py_getitem :: "json \<Rightarrow> ustr \<Rightarrow> exn + json" where
  "py_getitem (JObj kvs) k = (case map_of kvs k of None \<Rightarrow> Inl KeyError | Some v \<Rightarrow> Inr v)"
| "py_getitem v k = Inl TypeError"

fun py_get :: "json \<Rightarrow> ustr \<Rightarrow> json \<Rightarrow> exn + json" where
  "py_get (JObj kvs) k d = Inr (dict_get kvs k d)"
| "py_get v k d = Inl AttributeError"

fun py_len :: "json \<Rightarrow> exn + nat" where
  "py_len (JStr s) = Inr (length s)"
| "py_len (JList xs) = Inr (length xs)"
| "py_len (JObj kvs) = Inr (length kvs)"
| "py_len v = Inl TypeError"

text \<open>What the program shows with \<^verbatim>\<open>st.error\<close> and \<^verbatim>\<open>st.warning\<close>, one constructor a call.\<close>

datatype st_msg =
    Error_api_key
  | Error_api json
  | Warning_unexpected_format "ustr list option"
  | Error_request_exception
  | Error_exception exn
  | Error_station_not_found
  | Warning_no_trains

text \<open>
  The outcome of the request: \<^verbatim>\<open>requests.get\<close>, \<^verbatim>\<open>raise_for_status\<close> or
  \<^verbatim>\<open>response.json()\<close> raises a \<^verbatim>\<open>RequestException\<close>, or the body parses to a value.
\<close>

datatype upstream = Request_exception | Response_json json

text \<open>\<^verbatim>\<open>get_api_key\<close>: the configured secret when there is one, else the built-in key.\<close>

definition get_api_key :: "ustr option \<Rightarrow> ustr" where
  "get_api_key secret =
     (case secret of
        Some k \<Rightarrow> k
      | None \<Rightarrow> ascii ''654d446e737a6f7239355155714278'')"

text \<open>
  The check of the embedded error: the result is \<open>Some error_msg\<close> when the branch that
  reports an API error is taken. The default message is "unknown error".
\<close>

definition api_error_of :: "json \<Rightarrow> exn + json option" where
  "api_error_of data =
     (case py_in (ascii ''errorMessage'') data of
        Inl e \<Rightarrow> Inl e
      | Inr False \<Rightarrow> Inr None
      | Inr True \<Rightarrow>
          (case py_getitem data (ascii ''errorMessage'') of
             Inl e \<Rightarrow> Inl e
           | Inr error_info \<Rightarrow>
               (case py_get error_info (ascii ''code'') (JStr []) of
                  Inl e \<Rightarrow> Inl e
                | Inr code \<Rightarrow>
                    if code \<noteq> JStr (ascii ''INFO-000'') then
                      (case py_get error_info (ascii ''message'')
                              (JStr [0xC54C, 0x20, 0xC218, 0x20, 0xC5C6, 0xB294, 0x20,
                                     0xC624, 0xB958]) of
                         Inl e \<Rightarrow> Inl e
                       | Inr error_msg \<Rightarrow> Inr (Some error_msg))
                    else Inr None)))"

text \<open>
  \<^verbatim>\<open>if arrival_list and len(arrival_list) > 0: return arrival_list\<close>,
  \<^verbatim>\<open>else: return []\<close>.
\<close>

definition return_arrival_list :: "json \<Rightarrow> exn + json" where
  "return_arrival_list arrival_list =
     (if truthy arrival_list then
        (case py_len arrival_list of
           Inl e \<Rightarrow> Inl e
         | Inr n \<Rightarrow> if n > 0 then Inr arrival_list else Inr (JList []))
      else Inr (JList []))"

text \<open>
  The three accepted shapes and the unexpected one. The warning shows the keys of a dict,
  and a fixed word for anything else. The returned \<open>JNull\<close> is \<^verbatim>\<open>None\<close>.
\<close>

definition arrival_shape :: "json \<Rightarrow> exn + st_msg list \<times> json" where
  "arrival_shape data =
     (case py_in (ascii ''realtimeArrivalList'') data of
        Inl e \<Rightarrow> Inl e
      | Inr True \<Rightarrow>
          (case py_getitem data (ascii ''realtimeArrivalList'') of
             Inl e \<Rightarrow> Inl e
           | Inr arrival_list \<Rightarrow>
               (case return_arrival_list arrival_list of
                  Inl e \<Rightarrow> Inl e
                | Inr r \<Rightarrow> Inr ([], r)))
      | Inr False \<Rightarrow>
          (case py_in (ascii ''realtimeStationArrival'') data of
             Inl e \<Rightarrow> Inl e
           | Inr True \<Rightarrow>
               (case py_getitem data (ascii ''realtimeStationArrival'') of
                  Inl e \<Rightarrow> Inl e
                | Inr arrival_list \<Rightarrow>
                    (case return_arrival_list arrival_list of
                       Inl e \<Rightarrow> Inl e
                     | Inr r \<Rightarrow> Inr ([], r)))
           | Inr False \<Rightarrow>
               (case data of
                  JList xs \<Rightarrow> Inr ([], if length xs > 0 then data else JList [])
                | JObj kvs \<Rightarrow> Inr ([Warning_unexpected_format (Some (map fst kvs))], JNull)
                | _ \<Rightarrow> Inr ([Warning_unexpected_format None], JNull))))"

text \<open>
  \<^verbatim>\<open>fetch_subway_data\<close>: the messages shown and the value returned. Any exception of the
  \<^verbatim>\<open>try\<close> block ends in an error message and \<^verbatim>\<open>None\<close>.
\<close>

definition fetch_subway_data :: "ustr \<Rightarrow> upstream \<Rightarrow> st_msg list \<times> json" where
  "fetch_subway_data API_KEY reply =
     (if API_KEY = [] then ([Error_api_key], JNull)
      else
        (case reply of
           Request_exception \<Rightarrow> ([Error_request_exception], JNull)
         | Response_json data \<Rightarrow>
             (case api_error_of data of
                Inl e \<Rightarrow> ([Error_exception e], JNull)
              | Inr (Some error_msg) \<Rightarrow> ([Error_api error_msg], JNull)
              | Inr None \<Rightarrow>
                  (case arrival_shape data of
                     Inl e \<Rightarrow> ([Error_exception e], JNull)
                   | Inr r \<Rightarrow> r))))"

section \<open>Direction grouping and the page\<close>

text \<open>
  The two tests of the grouping loop, each an \<^verbatim>\<open>or\<close> of three \<^verbatim>\<open>in\<close> tests evaluated left
  to right.
\<close>

fun any_in :: "ustr list \<Rightarrow> json \<Rightarrow> exn + bool" where
  "any_in [] x = Inr False"
| "any_in (w # ws) x =
     (case py_in w x of
        Inl e \<Rightarrow> Inl e
      | Inr b \<Rightarrow> if b then Inr True else any_in ws x)"

definition up_check :: "json \<Rightarrow> exn + bool" where
  "up_check updn = any_in [k_sanghaeng, k_naeseon, k_sang] updn"

definition down_check :: "json \<Rightarrow> exn + bool" where
  "down_check updn = any_in [k_hahaeng, k_oeseon, k_ha] updn"

datatype bound = Upbound | Downbound

text \<open>The \<^verbatim>\<open>if\<close>, \<^verbatim>\<open>elif\<close>, \<^verbatim>\<open>else\<close> of the loop: the list the arrival is appended to.\<close>

definition direction_group :: "json \<Rightarrow> exn + bound" where
  "direction_group updn =
     (case up_check updn of
        Inl e \<Rightarrow> Inl e
      | Inr True \<Rightarrow> Inr Upbound
      | Inr False \<Rightarrow>
          (case down_check updn of
             Inl e \<Rightarrow> Inl e
           | Inr True \<Rightarrow> Inr Downbound
           | Inr False \<Rightarrow> Inr Downbound))"

text \<open>The loop over the arrivals, with the two lists it appends to.\<close>

fun group_trains ::
  "(json \<Rightarrow> ustr) \<Rightarrow> json list \<Rightarrow> train_info list \<Rightarrow> train_info list \<Rightarrow>
   exn + train_info list \<times> train_info list" where
  "group_trains repr [] upbound_trains downbound_trains =
     Inr (upbound_trains, downbound_trains)"
| "group_trains repr (train # trains) upbound_trains downbound_trains =
     (case parse_train_info repr train of
        Inl e \<Rightarrow> Inl e
      | Inr train_info \<Rightarrow>
          (case direction_group (updn_line train_info) of
             Inl e \<Rightarrow> Inl e
           | Inr Upbound \<Rightarrow>
               group_trains repr trains (upbound_trains @ [train_info]) downbound_trains
           | Inr Downbound \<Rightarrow>
               group_trains repr trains upbound_trains (downbound_trains @ [train_info])))"

text \<open>
  What \<^verbatim>\<open>for train in data\<close> iterates over: the elements of a list, the characters of a
  string, the keys of a dict.
\<close>

fun py_iter :: "json \<Rightarrow> exn + json list" where
  "py_iter (JList xs) = Inr xs"
| "py_iter (JStr s) = Inr (map (\<lambda>c. JStr [c]) s)"
| "py_iter (JObj kvs) = Inr (map (\<lambda>kv. JStr (fst kv)) kvs)"
| "py_iter v = Inl TypeError"

text \<open>
  The handling of the fetched value: the error for \<^verbatim>\<open>None\<close>, the warning for the empty
  list, else the two groups (the down-bound tab comes first on the page). An exception
  here is not caught.
\<close>

datatype page =
    Shows st_msg
  | Tabs "train_info list" "train_info list"

definition show_arrivals :: "(json \<Rightarrow> ustr) \<Rightarrow> json \<Rightarrow> exn + page" where
  "show_arrivals repr data =
     (if data = JNull then Inr (Shows Error_station_not_found)
      else if data = JList [] then Inr (Shows Warning_no_trains)
      else
        (case py_iter data of
           Inl e \<Rightarrow> Inl e
         | Inr trains \<Rightarrow>
             (case group_trains repr trains [] [] of
                Inl e \<Rightarrow> Inl e
              | Inr (upbound_trains, downbound_trains) \<Rightarrow>
                  Inr (Tabs downbound_trains upbound_trains))))"

lemmas korean_defs =
  k_jeopsu_def k_geullobeol_def k_suip_def k_jeonhwan_def
  k_bun_def k_cho_def k_hu_def k_dochak_def k_jinip_def k_jeonyeok_def k_yeok_def
  k_beonjjae_def k_al_su_eopseum_def k_hoseon_def k_got_dochak_def k_jinipjung_def
  k_sanghaeng_def k_naeseon_def k_sang_def k_hahaeng_def k_oeseon_def k_ha_def

section \<open>Helper facts\<close>

lemma startswith_append: "startswith s (a @ b) \<Longrightarrow> startswith s a"
  by (induction s a rule: startswith.induct) auto

lemma str_contains_append: "str_contains s (a @ b) \<Longrightarrow> str_contains s a"
  by (induction s) (auto dest: startswith_append)

text \<open>The characters of the decimal text of a number, and of the time string.\<close>

lemma digits_range: "c \<in> set (digits n) \<Longrightarrow> 48 \<le> c \<and> c \<le> 57"
proof (induction n arbitrary: c rule: digits.induct)
  case (1 n)
  show ?case
  proof (cases "n < 10")
    case True
    with "1.prems" show ?thesis by (simp add: digits.simps [of n])
  next
    case False
    with "1.prems" have "c \<in> set (digits (n div 10)) \<or> c = 48 + n mod 10"
      by (auto simp add: digits.simps [of n])
    moreover have "n mod 10 < 10" by simp
    ultimately show ?thesis using "1.IH" [OF False] by auto
  qed
qed

lemma digits_nonempty: "digits n \<noteq> []"
  by (simp add: digits.simps [of n])

lemma str_int_range: "c \<in> set (str_int n) \<Longrightarrow> c \<le> 57"
  by (auto simp add: str_int_def dest: digits_range split: if_splits)

lemma str_int_nonempty: "str_int n \<noteq> []"
  by (simp add: str_int_def digits_nonempty)

lemma time_str_nonempty: "time_str_of s \<noteq> []"
  by (simp add: time_str_of_def Let_def str_int_nonempty korean_defs)

lemma time_str_chars:
  "c \<in> set (time_str_of s) \<Longrightarrow>
     c \<le> 57 \<or> c \<in> {0xBD84, 0xCD08, 0xD6C4, 0xB3C4, 0xCC29, 0xACE7}"
  by (auto simp add: time_str_of_def Let_def korean_defs dest: str_int_range split: if_splits)

lemma startswith_hd: "startswith s (c # w) \<Longrightarrow> c \<in> set s"
  by (cases s) auto

lemma str_contains_hd: "str_contains s (c # w) \<Longrightarrow> c \<in> set s"
  by (induction s) (auto dest: startswith_hd)

lemma time_str_clean: "\<not> has_invalid_word (time_str_of s)"
  by (auto simp add: has_invalid_word_def korean_defs dest!: str_contains_hd time_str_chars)

lemma hd_str_int: "hd (str_int n @ rest) \<le> 57"
proof -
  have "hd (str_int n @ rest) = hd (str_int n)"
    by (simp add: str_int_nonempty)
  moreover have "hd (str_int n) \<in> set (str_int n)"
    by (simp add: str_int_nonempty)
  ultimately show ?thesis by (auto dest: str_int_range)
qed

lemma time_str_digit_first: "0 < s \<Longrightarrow> hd (time_str_of s) \<le> 57"
proof -
  assume pos: "0 < s"
  then have "0 < s div 60 \<or> 0 < s mod 60" by presburger
  with pos show ?thesis
    by (auto simp add: time_str_of_def Let_def hd_str_int)
qed

text \<open>
  The shape of a successful call of \<^verbatim>\<open>parse_train_info\<close>, and that the call succeeds
  whenever the record is a dict whose two messages are strings or absent.
\<close>

lemma parse_train_info_Inr:
  assumes "parse_train_info repr train = Inr info"
  obtains d b msg2 msg3 where
    "train = JObj d"
    "barvl_seconds_of (dict_get d (ascii ''barvlDt'') (JStr (ascii ''0''))) = Inr b"
    "py_strip (dict_get d (ascii ''arvlMsg2'') (JStr [])) = Inr msg2"
    "py_strip (dict_get d (ascii ''arvlMsg3'') (JStr [])) = Inr msg3"
    "status info = final_filter b (time_str_of b)
       (fst (status_and_time
          (if scrub msg2 \<noteq> [] then is_valid_station_text (scrub msg2) else False)
          (scrub msg2) b (time_str_of b) (dict_get d (ascii ''arvlCd'') (JStr []))))"
    "time info = final_filter b (time_str_of b)
       (snd (status_and_time
          (if scrub msg2 \<noteq> [] then is_valid_station_text (scrub msg2) else False)
          (scrub msg2) b (time_str_of b) (dict_get d (ascii ''arvlCd'') (JStr []))))"
    "current info \<noteq> []"
    "direction info = dict_get d (ascii ''bstatnNm'') (JStr k_al_su_eopseum)"
proof -
  from assms obtain d where d: "train = JObj d"
    by (cases train) (simp_all add: parse_train_info_def)
  from assms d obtain b where
    b: "barvl_seconds_of (dict_get d (ascii ''barvlDt'') (JStr (ascii ''0''))) = Inr b"
    by (cases "barvl_seconds_of (dict_get d (ascii ''barvlDt'') (JStr (ascii ''0'')))")
       (simp_all add: parse_train_info_def)
  from assms d b obtain msg2 where
    m2: "py_strip (dict_get d (ascii ''arvlMsg2'') (JStr [])) = Inr msg2"
    by (cases "py_strip (dict_get d (ascii ''arvlMsg2'') (JStr []))")
       (simp_all add: parse_train_info_def)
  from assms d b m2 obtain msg3 where
    m3: "py_strip (dict_get d (ascii ''arvlMsg3'') (JStr [])) = Inr msg3"
    by (cases "py_strip (dict_get d (ascii ''arvlMsg3'') (JStr []))")
       (simp_all add: parse_train_info_def)
  from assms d b m2 m3 have
    "status info = final_filter b (time_str_of b)
       (fst (status_and_time
          (if scrub msg2 \<noteq> [] then is_valid_station_text (scrub msg2) else False)
          (scrub msg2) b (time_str_of b) (dict_get d (ascii ''arvlCd'') (JStr []))))"
    "time info = final_filter b (time_str_of b)
       (snd (status_and_time
          (if scrub msg2 \<noteq> [] then is_valid_station_text (scrub msg2) else False)
          (scrub msg2) b (time_str_of b) (dict_get d (ascii ''arvlCd'') (JStr []))))"
    "current info \<noteq> []"
    "direction info = dict_get d (ascii ''bstatnNm'') (JStr k_al_su_eopseum)"
    by (auto simp add: parse_train_info_def Let_def k_al_su_eopseum_def split: if_splits)
  with d b m2 m3 show thesis by (rule that)
qed

lemma dochak_clean: "\<not> has_invalid_word k_dochak"
  by (simp add: has_invalid_word_def korean_defs)

lemma final_filter_clean: "\<not> has_invalid_word (final_filter b (time_str_of b) s)"
  by (simp add: final_filter_def time_str_clean dochak_clean)

lemma invalid_words_has: "w \<in> set invalid_words \<Longrightarrow> str_contains s w \<Longrightarrow> has_invalid_word s"
  by (auto simp add: invalid_words_def has_invalid_word_def)

lemma status_and_time_nonempty:
  "time_str \<noteq> [] \<Longrightarrow> (v \<longrightarrow> msg \<noteq> []) \<Longrightarrow>
   fst (status_and_time v msg b time_str cd) \<noteq> [] \<and> snd (status_and_time v msg b time_str cd) \<noteq> []"
  by (auto simp add: status_and_time_def korean_defs)

lemma final_filter_nonempty: "s \<noteq> [] \<Longrightarrow> final_filter b (time_str_of b) s \<noteq> []"
  by (simp add: final_filter_def time_str_nonempty korean_defs)

lemma barvl_seconds_of_total: "\<exists>b. barvl_seconds_of v = Inr b"
  by (cases v) (auto simp add: barvl_seconds_of_def split: option.splits)

lemma parse_train_info_returns:
  assumes "dict_get d (ascii ''arvlMsg2'') (JStr []) = JStr s2"
    and "dict_get d (ascii ''arvlMsg3'') (JStr []) = JStr s3"
  shows "\<exists>info. parse_train_info repr (JObj d) = Inr info"
proof -
  obtain b where "barvl_seconds_of (dict_get d (ascii ''barvlDt'') (JStr (ascii ''0''))) = Inr b"
    using barvl_seconds_of_total by blast
  with assms show ?thesis
    by (simp add: parse_train_info_def Let_def)
qed

lemma jinipjung_clean: "\<not> has_invalid_word k_jinipjung"
  by (simp add: has_invalid_word_def korean_defs)

lemma final_filter_id: "\<not> has_invalid_word s \<Longrightarrow> final_filter b t s = s"
  by (simp add: final_filter_def)

lemma status_and_time_invalid:
  "status_and_time False [] b t cd =
     (if 0 < b then (t, t)
      else if cd = JStr (ascii ''1'') then (k_jinipjung, k_jinipjung) else (k_dochak, k_dochak))"
  by (simp add: status_and_time_def ascii_def)

lemma sillim_strip:
  "strip [0xC2E0, 0xB9BC, 0xD589, 0x20, 0xC5F4, 0xCC28, 0xAC00, 0x20, 0xC811, 0xC218,
            0xC911, 0xC785, 0xB2C8, 0xB2E4]
   = [0xC2E0, 0xB9BC, 0xD589, 0x20, 0xC5F4, 0xCC28, 0xAC00, 0x20, 0xC811, 0xC218,
            0xC911, 0xC785, 0xB2C8, 0xB2E4]"
  by (simp add: strip_def isspace_def)

lemma sillim_scrub:
  "scrub [0xC2E0, 0xB9BC, 0xD589, 0x20, 0xC5F4, 0xCC28, 0xAC00, 0x20, 0xC811, 0xC218,
            0xC911, 0xC785, 0xB2C8, 0xB2E4] = []"
  by (simp add: scrub_def invalid_words_def korean_defs)

section \<open>Line-code resolver: results\<close>

text \<open>
  C9: the resolver maps the id "1001" to "1-hoseon" (a table hit), the id "9999" to
  "9999-hoseon" (a miss, so the id followed by the suffix) and the empty id to the
  constant "unknown".
\<close>

theorem resolve_line_name_examples:
  "get_subway_line_name repr (JStr (ascii ''1001'')) = ascii ''1'' @ k_hoseon \<and>
   get_subway_line_name repr (JStr (ascii ''9999'')) = ascii ''9999'' @ k_hoseon \<and>
   get_subway_line_name repr (JStr []) = k_al_su_eopseum"
  by (simp add: get_subway_line_name_def subway_line_map_def ascii_def)

section \<open>Arrival-text classifier: results\<close>

text \<open>
  C6: \<^verbatim>\<open>is_valid_station_text\<close> is false for the empty string, and false for every string
  that contains a token of its denylist, whatever else the string contains; the denylist
  is tested before the allowlist.
\<close>

theorem denylist_takes_precedence:
  "\<not> is_valid_station_text [] \<and>
   (\<forall>text w. w \<in> set invalid_words_text \<and> str_contains text w \<longrightarrow>
      \<not> is_valid_station_text text)"
  by (auto simp add: is_valid_station_text_def list_ex_iff)

text \<open>
  The crafted string "jeopsu dochak" holds the denylisted token "jeopsu" and the
  allowlisted token "dochak", and is rejected.
\<close>

theorem denylist_takes_precedence_witness:
  "k_jeopsu \<in> set invalid_words_text \<and>
   str_contains (k_jeopsu @ [0x20] @ k_dochak) k_jeopsu \<and>
   list_ex (str_contains (k_jeopsu @ [0x20] @ k_dochak)) valid_keywords \<and>
   \<not> is_valid_station_text (k_jeopsu @ [0x20] @ k_dochak)"
proof -
  have mem: "k_jeopsu \<in> set invalid_words_text"
    by (simp add: invalid_words_text_def)
  have sub: "str_contains (k_jeopsu @ [0x20] @ k_dochak) k_jeopsu"
    by (simp add: korean_defs)
  have allow: "list_ex (str_contains (k_jeopsu @ [0x20] @ k_dochak)) valid_keywords"
    by (simp add: valid_keywords_def korean_defs)
  from denylist_takes_precedence mem sub
  have "\<not> is_valid_station_text (k_jeopsu @ [0x20] @ k_dochak)"
    by blast
  with mem sub allow show ?thesis by blast
qed

section \<open>Time string: results\<close>

text \<open>
  C5: for the parsed seconds \<open>s\<close>: when \<open>s\<close> is positive and a multiple of 60 the time
  string is the minutes \<open>s div 60\<close> followed by "bun hu" (minutes, after), with no seconds
  part; when \<open>0 < s < 60\<close> it is \<open>s\<close> followed by "cho hu" (seconds, after); when \<open>s = 0\<close>
  it is "dochak" (arrived).
\<close>

theorem time_string_cases:
  "(0 < s \<and> s mod 60 = 0 \<longrightarrow> time_str_of s = str_int (s div 60) @ k_bun @ [0x20] @ k_hu) \<and>
   (0 < s \<and> s < 60 \<longrightarrow> time_str_of s = str_int s @ k_cho @ [0x20] @ k_hu) \<and>
   (s = 0 \<longrightarrow> time_str_of s = k_dochak)"
  by (auto simp add: time_str_of_def Let_def)

theorem time_string_cases_witness:
  "(0::int) < 120 \<and> (120::int) mod 60 = 0 \<and>
   time_str_of 120 = ascii ''2'' @ k_bun @ [0x20] @ k_hu \<and>
   (0::int) < 45 \<and> (45::int) < 60 \<and>
   time_str_of 45 = ascii ''45'' @ k_cho @ [0x20] @ k_hu \<and>
   time_str_of 0 = k_dochak"
  using time_string_cases [of 120] time_string_cases [of 45] time_string_cases [of 0]
  by (simp add: str_int_def digits.simps ascii_def)

text \<open>
  C10: the computed time string is never "got dochak" (arriving soon). The branch that
  yields it is unreachable: when the seconds are positive, the minutes \<open>s div 60\<close> or the
  seconds \<open>s mod 60\<close> are positive, so one of the three branches before it is taken, and
  each of them starts with a digit; when the seconds are not positive the string is
  "dochak".
\<close>

theorem soon_branch_unreachable: "time_str_of s \<noteq> k_got_dochak \<and> (0 < s \<longrightarrow> 0 < s div 60 \<or> 0 < s mod 60)"
proof
  show "time_str_of s \<noteq> k_got_dochak"
  proof (cases "0 < s")
    case False
    then show ?thesis by (simp add: time_str_of_def korean_defs)
  next
    case True
    from time_str_digit_first [OF True] show ?thesis
      by (auto simp add: korean_defs)
  qed
  show "0 < s \<longrightarrow> 0 < s div 60 \<or> 0 < s mod 60" by presburger
qed

theorem soon_branch_unreachable_witness:
  "time_str_of 125 \<noteq> k_got_dochak \<and> (0::int) < 125 \<and>
   ((0::int) < 125 div 60 \<or> (0::int) < 125 mod 60)"
  using soon_branch_unreachable [of 125] by simp

section \<open>Feed fetcher: results\<close>

text \<open>
  C1, as the code has it: with a key configured, the response that holds only the error
  object with the code "INFO-000" passes the check of the embedded error, matches none of
  the three accepted shapes, and so takes the unexpected-shape branch: the fetch shows the
  warning with the observed key and returns \<^verbatim>\<open>None\<close>, and the page shows the error
  "station not found", not the message "no trains".
\<close>

theorem info_000_without_list_unexpected:
  "API_KEY \<noteq> [] \<Longrightarrow>
   fetch_subway_data API_KEY
     (Response_json
        (JObj [(ascii ''errorMessage'', JObj [(ascii ''code'', JStr (ascii ''INFO-000''))])]))
     = ([Warning_unexpected_format (Some [ascii ''errorMessage''])], JNull) \<and>
   show_arrivals repr JNull = Inr (Shows Error_station_not_found)"
  by (simp add: fetch_subway_data_def api_error_of_def arrival_shape_def dict_get_def
      ascii_def show_arrivals_def)

theorem info_000_without_list_unexpected_witness:
  "get_api_key None \<noteq> [] \<and>
   fetch_subway_data (get_api_key None)
     (Response_json
        (JObj [(ascii ''errorMessage'', JObj [(ascii ''code'', JStr (ascii ''INFO-000''))])]))
     = ([Warning_unexpected_format (Some [ascii ''errorMessage''])], JNull) \<and>
   show_arrivals (\<lambda>v. []) JNull = Inr (Shows Error_station_not_found)"
proof -
  have key: "get_api_key None \<noteq> []"
    by (simp add: get_api_key_def ascii_def)
  from info_000_without_list_unexpected [OF key, of "\<lambda>v. []"] key
  show ?thesis by simp
qed

text \<open>
  The claim as the specification states it fails: on that response, with the built-in
  key, the fetch does not yield the empty list of arrivals with no message.
\<close>

theorem info_000_without_list_counterexample:
  "fetch_subway_data (get_api_key None)
     (Response_json
        (JObj [(ascii ''errorMessage'', JObj [(ascii ''code'', JStr (ascii ''INFO-000''))])]))
     \<noteq> ([], JList [])"
  by (simp add: fetch_subway_data_def get_api_key_def api_error_of_def arrival_shape_def
      dict_get_def ascii_def)

text \<open>
  C7: with a key configured, a response that is a dict holding an error object under
  "errorMessage" whose code (the empty string when absent) is not "INFO-000" makes the
  fetch show the API error carrying the message of the error object (the text
  "unknown error" when the object has none) and return \<^verbatim>\<open>None\<close>, so no arrival list.
\<close>

theorem api_error_surfaced:
  assumes "API_KEY \<noteq> []"
    and "map_of d (ascii ''errorMessage'') = Some (JObj e)"
    and "dict_get e (ascii ''code'') (JStr []) \<noteq> JStr (ascii ''INFO-000'')"
  shows "fetch_subway_data API_KEY (Response_json (JObj d)) =
     ([Error_api (dict_get e (ascii ''message'')
        (JStr [0xC54C, 0x20, 0xC218, 0x20, 0xC5C6, 0xB294, 0x20, 0xC624, 0xB958]))], JNull)"
  using assms by (simp add: fetch_subway_data_def api_error_of_def)

text \<open>The response with the code "ERROR-300" and the message "invalid key".\<close>

theorem api_error_surfaced_witness:
  "fetch_subway_data (get_api_key None)
     (Response_json
        (JObj [(ascii ''errorMessage'',
                JObj [(ascii ''code'', JStr (ascii ''ERROR-300'')),
                      (ascii ''message'', JStr (ascii ''invalid key''))])]))
     = ([Error_api (JStr (ascii ''invalid key''))], JNull)"
proof -
  have key: "get_api_key None \<noteq> []"
    by (simp add: get_api_key_def ascii_def)
  have err: "map_of
      [(ascii ''errorMessage'',
        JObj [(ascii ''code'', JStr (ascii ''ERROR-300'')),
              (ascii ''message'', JStr (ascii ''invalid key''))])]
      (ascii ''errorMessage'')
    = Some (JObj [(ascii ''code'', JStr (ascii ''ERROR-300'')),
                  (ascii ''message'', JStr (ascii ''invalid key''))])"
    by simp
  have code: "dict_get [(ascii ''code'', JStr (ascii ''ERROR-300'')),
                        (ascii ''message'', JStr (ascii ''invalid key''))]
                (ascii ''code'') (JStr []) \<noteq> JStr (ascii ''INFO-000'')"
    by (simp add: dict_get_def ascii_def)
  from api_error_surfaced [OF key err code]
  show ?thesis by (simp add: dict_get_def ascii_def)
qed

section \<open>Direction grouping: results\<close>

text \<open>
  C3, as the code has it: the up test is evaluated first, so a direction-code string goes
  to the up group exactly when it contains the token "sang" (up; the token "sanghaeng"
  contains it) or the token "naeseon" (inner loop), and to the down group otherwise,
  whether it contains a down token or none at all.
\<close>

theorem direction_group_up_first:
  "direction_group (JStr s) =
     Inr (if str_contains s k_sang \<or> str_contains s k_naeseon then Upbound else Downbound)"
  using str_contains_append [of s k_sang "[0xD589]"]
  by (auto simp add: direction_group_def up_check_def down_check_def korean_defs)

theorem direction_group_up_first_witness:
  "str_contains [0xC0C1, 0xD558] k_sang \<and> direction_group (JStr [0xC0C1, 0xD558]) = Inr Upbound \<and>
   direction_group (JStr (ascii ''?'')) = Inr Downbound"
  using direction_group_up_first [of "[0xC0C1, 0xD558]"] direction_group_up_first [of "ascii ''?''"]
  by (simp add: korean_defs ascii_def)

text \<open>
  The two tests are not mutually exclusive: the two-character string "sang ha"
  (U+C0C1, U+D558) satisfies both.
\<close>

theorem direction_checks_overlap_counterexample:
  "up_check (JStr [0xC0C1, 0xD558]) = Inr True \<and>
   down_check (JStr [0xC0C1, 0xD558]) = Inr True"
  by (simp add: up_check_def down_check_def korean_defs)

section \<open>Arrival normaliser: results\<close>

text \<open>
  C8: the record with barvlDt "125", empty messages, arvlCd "99", subwayId "1002",
  updnLine "sanghaeng" and lstcarAt "0" is normalised to the display time
  "2-bun 5-cho hu", the line name "2-hoseon" and the last-train flag false, and the
  grouping loop appends it to the up-bound list.
\<close>

theorem example_record_normalised:
  "parse_train_info repr
     (JObj [(ascii ''barvlDt'', JStr (ascii ''125'')), (ascii ''arvlMsg2'', JStr []),
            (ascii ''arvlMsg3'', JStr []), (ascii ''arvlCd'', JStr (ascii ''99'')),
            (ascii ''subwayId'', JStr (ascii ''1002'')), (ascii ''updnLine'', JStr k_sanghaeng),
            (ascii ''lstcarAt'', JStr (ascii ''0''))])
   = Inr \<lparr>direction = JStr k_al_su_eopseum,
          status = ascii ''2'' @ k_bun @ [0x20] @ ascii ''5'' @ k_cho @ [0x20] @ k_hu,
          time = ascii ''2'' @ k_bun @ [0x20] @ ascii ''5'' @ k_cho @ [0x20] @ k_hu,
          current = k_al_su_eopseum,
          subway_line = JStr (ascii ''1002''),
          subway_line_name = ascii ''2'' @ k_hoseon,
          updn_line = JStr k_sanghaeng,
          is_last_train = False\<rparr> \<and>
   group_trains repr
     [JObj [(ascii ''barvlDt'', JStr (ascii ''125'')), (ascii ''arvlMsg2'', JStr []),
            (ascii ''arvlMsg3'', JStr []), (ascii ''arvlCd'', JStr (ascii ''99'')),
            (ascii ''subwayId'', JStr (ascii ''1002'')), (ascii ''updnLine'', JStr k_sanghaeng),
            (ascii ''lstcarAt'', JStr (ascii ''0''))]] [] []
   = Inr ([\<lparr>direction = JStr k_al_su_eopseum,
          status = ascii ''2'' @ k_bun @ [0x20] @ ascii ''5'' @ k_cho @ [0x20] @ k_hu,
          time = ascii ''2'' @ k_bun @ [0x20] @ ascii ''5'' @ k_cho @ [0x20] @ k_hu,
          current = k_al_su_eopseum,
          subway_line = JStr (ascii ''1002''),
          subway_line_name = ascii ''2'' @ k_hoseon,
          updn_line = JStr k_sanghaeng,
          is_last_train = False\<rparr>], [])"
proof -
  have parsed: "parse_train_info repr
     (JObj [(ascii ''barvlDt'', JStr (ascii ''125'')), (ascii ''arvlMsg2'', JStr []),
            (ascii ''arvlMsg3'', JStr []), (ascii ''arvlCd'', JStr (ascii ''99'')),
            (ascii ''subwayId'', JStr (ascii ''1002'')), (ascii ''updnLine'', JStr k_sanghaeng),
            (ascii ''lstcarAt'', JStr (ascii ''0''))])
   = Inr \<lparr>direction = JStr k_al_su_eopseum,
          status = ascii ''2'' @ k_bun @ [0x20] @ ascii ''5'' @ k_cho @ [0x20] @ k_hu,
          time = ascii ''2'' @ k_bun @ [0x20] @ ascii ''5'' @ k_cho @ [0x20] @ k_hu,
          current = k_al_su_eopseum,
          subway_line = JStr (ascii ''1002''),
          subway_line_name = ascii ''2'' @ k_hoseon,
          updn_line = JStr k_sanghaeng,
          is_last_train = False\<rparr>"
    unfolding parse_train_info_def
    by (simp add: barvl_seconds_of_def int_of_str_def unsigned_value_def is_digit_def
        int_space_def isspace_def time_str_of_def str_int_def digits.simps dict_get_def
        strip_def scrub_def invalid_words_def status_and_time_def current_location_of_def
        is_valid_station_text_def final_filter_def has_invalid_word_def
        get_subway_line_name_def subway_line_map_def korean_defs ascii_def Let_def)
  have up: "direction_group (JStr k_sanghaeng) = Inr Upbound"
    by (simp add: direction_group_def up_check_def korean_defs)
  show ?thesis
    by (simp add: parsed up)
qed

text \<open>
  C4: in every normalised arrival neither the status nor the display time contains a
  token of the denylist ("jeopsu", "geullobeol", "suip", "jeonhwan"). When arvlMsg2 is
  the message "sillim-haeng yeolcha-ga jeopsu-jung-imnida", which contains "jeopsu", the
  status and the display time are both the computed time string when the seconds are
  positive, and otherwise the fallback chosen by arvlCd: "jinipjung" for "1", else
  "dochak".
\<close>

theorem garbage_never_leaks:
  assumes "parse_train_info repr train = Inr info"
  shows "(\<forall>w \<in> set invalid_words.
            \<not> str_contains (status info) w \<and> \<not> str_contains (time info) w) \<and>
         (\<forall>d. train = JObj d \<and>
               map_of d (ascii ''arvlMsg2'') =
                 Some (JStr [0xC2E0, 0xB9BC, 0xD589, 0x20, 0xC5F4, 0xCC28, 0xAC00, 0x20,
                             0xC811, 0xC218, 0xC911, 0xC785, 0xB2C8, 0xB2E4]) \<longrightarrow>
            (\<exists>b. barvl_seconds_of (dict_get d (ascii ''barvlDt'') (JStr (ascii ''0''))) = Inr b \<and>
                 status info =
                   (if 0 < b then time_str_of b
                    else if dict_get d (ascii ''arvlCd'') (JStr []) = JStr (ascii ''1'')
                         then k_jinipjung else k_dochak) \<and>
                 time info = status info))"
proof -
  from assms obtain d b msg2 where
    tr: "train = JObj d"
    and bs: "barvl_seconds_of (dict_get d (ascii ''barvlDt'') (JStr (ascii ''0''))) = Inr b"
    and m2: "py_strip (dict_get d (ascii ''arvlMsg2'') (JStr [])) = Inr msg2"
    and st: "status info = final_filter b (time_str_of b)
       (fst (status_and_time
          (if scrub msg2 \<noteq> [] then is_valid_station_text (scrub msg2) else False)
          (scrub msg2) b (time_str_of b) (dict_get d (ascii ''arvlCd'') (JStr []))))"
    and ti: "time info = final_filter b (time_str_of b)
       (snd (status_and_time
          (if scrub msg2 \<noteq> [] then is_valid_station_text (scrub msg2) else False)
          (scrub msg2) b (time_str_of b) (dict_get d (ascii ''arvlCd'') (JStr []))))"
    by (rule parse_train_info_Inr)
  have clean: "\<not> has_invalid_word (status info)" "\<not> has_invalid_word (time info)"
    by (simp_all add: st ti final_filter_clean)
  have part1: "\<forall>w \<in> set invalid_words.
      \<not> str_contains (status info) w \<and> \<not> str_contains (time info) w"
    using clean by (blast dest: invalid_words_has)
  have part2: "\<exists>b. barvl_seconds_of (dict_get d' (ascii ''barvlDt'') (JStr (ascii ''0''))) = Inr b \<and>
                 status info =
                   (if 0 < b then time_str_of b
                    else if dict_get d' (ascii ''arvlCd'') (JStr []) = JStr (ascii ''1'')
                         then k_jinipjung else k_dochak) \<and>
                 time info = status info"
    if d': "train = JObj d'"
      and msg: "map_of d' (ascii ''arvlMsg2'') =
                 Some (JStr [0xC2E0, 0xB9BC, 0xD589, 0x20, 0xC5F4, 0xCC28, 0xAC00, 0x20,
                             0xC811, 0xC218, 0xC911, 0xC785, 0xB2C8, 0xB2E4])"
    for d'
  proof -
    from d' tr have dd: "d' = d" by simp
    from msg dd m2 have "msg2 = [0xC2E0, 0xB9BC, 0xD589, 0x20, 0xC5F4, 0xCC28, 0xAC00, 0x20,
                             0xC811, 0xC218, 0xC911, 0xC785, 0xB2C8, 0xB2E4]"
      by (simp add: dict_get_def sillim_strip)
    then have sc: "scrub msg2 = []" by (simp add: sillim_scrub)
    have "status info =
                   (if 0 < b then time_str_of b
                    else if dict_get d (ascii ''arvlCd'') (JStr []) = JStr (ascii ''1'')
                         then k_jinipjung else k_dochak)"
      unfolding st sc
      by (simp add: status_and_time_invalid final_filter_id time_str_clean jinipjung_clean
          dochak_clean)
    moreover have "time info = status info"
      unfolding st ti sc by (simp add: status_and_time_invalid)
    ultimately show ?thesis using bs dd by blast
  qed
  from part1 part2 show ?thesis by blast
qed

text \<open>The record with that message and barvlDt "90": status and time are "1-bun 30-cho hu".\<close>

theorem garbage_never_leaks_witness:
  "parse_train_info (\<lambda>v. [])
     (JObj [(ascii ''barvlDt'', JStr (ascii ''90'')),
            (ascii ''arvlMsg2'',
             JStr [0xC2E0, 0xB9BC, 0xD589, 0x20, 0xC5F4, 0xCC28, 0xAC00, 0x20,
                   0xC811, 0xC218, 0xC911, 0xC785, 0xB2C8, 0xB2E4])])
   = Inr \<lparr>direction = JStr k_al_su_eopseum,
          status = ascii ''1'' @ k_bun @ [0x20] @ ascii ''30'' @ k_cho @ [0x20] @ k_hu,
          time = ascii ''1'' @ k_bun @ [0x20] @ ascii ''30'' @ k_cho @ [0x20] @ k_hu,
          current = k_al_su_eopseum,
          subway_line = JStr [],
          subway_line_name = k_al_su_eopseum,
          updn_line = JStr [],
          is_last_train = False\<rparr> \<and>
   \<not> str_contains (ascii ''1'' @ k_bun @ [0x20] @ ascii ''30'' @ k_cho @ [0x20] @ k_hu) k_jeopsu \<and>
   \<not> str_contains (ascii ''1'' @ k_bun @ [0x20] @ ascii ''30'' @ k_cho @ [0x20] @ k_hu) k_geullobeol \<and>
   \<not> str_contains (ascii ''1'' @ k_bun @ [0x20] @ ascii ''30'' @ k_cho @ [0x20] @ k_hu) k_suip \<and>
   \<not> str_contains (ascii ''1'' @ k_bun @ [0x20] @ ascii ''30'' @ k_cho @ [0x20] @ k_hu) k_jeonhwan \<and>
   barvl_seconds_of (JStr (ascii ''90'')) = Inr 90 \<and>
   time_str_of 90 = ascii ''1'' @ k_bun @ [0x20] @ ascii ''30'' @ k_cho @ [0x20] @ k_hu"
proof -
  let ?d = "[(ascii ''barvlDt'', JStr (ascii ''90'')),
            (ascii ''arvlMsg2'',
             JStr [0xC2E0, 0xB9BC, 0xD589, 0x20, 0xC5F4, 0xCC28, 0xAC00, 0x20,
                   0xC811, 0xC218, 0xC911, 0xC785, 0xB2C8, 0xB2E4])]"
  let ?t = "ascii ''1'' @ k_bun @ [0x20] @ ascii ''30'' @ k_cho @ [0x20] @ k_hu"
  let ?info = "\<lparr>direction = JStr k_al_su_eopseum, status = ?t, time = ?t,
          current = k_al_su_eopseum, subway_line = JStr [],
          subway_line_name = k_al_su_eopseum, updn_line = JStr [],
          is_last_train = False\<rparr>"
  have secs: "barvl_seconds_of (JStr (ascii ''90'')) = Inr 90"
    by (simp add: barvl_seconds_of_def int_of_str_def unsigned_value_def is_digit_def
        int_space_def isspace_def ascii_def)
  have str: "time_str_of 90 = ?t"
    by (simp add: time_str_of_def str_int_def digits.simps ascii_def)
  have parsed: "parse_train_info (\<lambda>v. []) (JObj ?d) = Inr ?info"
    unfolding parse_train_info_def
    by (simp add: barvl_seconds_of_def int_of_str_def unsigned_value_def is_digit_def
        int_space_def isspace_def time_str_of_def str_int_def digits.simps dict_get_def
        strip_def scrub_def invalid_words_def status_and_time_def current_location_of_def
        is_valid_station_text_def final_filter_def has_invalid_word_def
        get_subway_line_name_def subway_line_map_def korean_defs ascii_def Let_def)
  have msg: "map_of ?d (ascii ''arvlMsg2'') =
      Some (JStr [0xC2E0, 0xB9BC, 0xD589, 0x20, 0xC5F4, 0xCC28, 0xAC00, 0x20,
                  0xC811, 0xC218, 0xC911, 0xC785, 0xB2C8, 0xB2E4])"
    by (simp add: ascii_def)
  from garbage_never_leaks [OF parsed]
  have "\<forall>w \<in> set invalid_words. \<not> str_contains (status ?info) w"
    by blast
  then have clean: "\<not> str_contains ?t k_jeopsu" "\<not> str_contains ?t k_geullobeol"
    "\<not> str_contains ?t k_suip" "\<not> str_contains ?t k_jeonhwan"
    by (simp_all add: invalid_words_def)
  from parsed clean secs str show ?thesis by blast
qed

text \<open>
  C2, where the code departs from it: a record whose bstatnNm is present and empty is
  normalised with the empty string as its direction. The default "unknown" of the
  direction is used only when the key is absent, while the current location is replaced
  by "unknown" whenever it is empty.
\<close>

theorem empty_direction_kept:
  "parse_train_info repr (JObj [(ascii ''bstatnNm'', JStr [])]) =
     Inr \<lparr>direction = JStr [],
          status = k_dochak,
          time = k_dochak,
          current = k_al_su_eopseum,
          subway_line = JStr [],
          subway_line_name = k_al_su_eopseum,
          updn_line = JStr [],
          is_last_train = False\<rparr>"
  unfolding parse_train_info_def
  by (simp add: barvl_seconds_of_def int_of_str_def unsigned_value_def is_digit_def
      int_space_def isspace_def time_str_of_def dict_get_def strip_def scrub_def
      invalid_words_def status_and_time_def current_location_of_def
      is_valid_station_text_def final_filter_def has_invalid_word_def
      get_subway_line_name_def subway_line_map_def korean_defs ascii_def Let_def)

text \<open>
  The other three fields hold for every record: status, display time and current
  location of a normalised arrival are never empty, and the direction is "unknown" when
  the key bstatnNm is absent.
\<close>

lemma status_time_current_nonempty:
  assumes "parse_train_info repr train = Inr info"
  shows "status info \<noteq> [] \<and> time info \<noteq> [] \<and> current info \<noteq> []"
proof -
  from assms obtain d b msg2 where
    st: "status info = final_filter b (time_str_of b)
       (fst (status_and_time
          (if scrub msg2 \<noteq> [] then is_valid_station_text (scrub msg2) else False)
          (scrub msg2) b (time_str_of b) (dict_get d (ascii ''arvlCd'') (JStr []))))"
    and ti: "time info = final_filter b (time_str_of b)
       (snd (status_and_time
          (if scrub msg2 \<noteq> [] then is_valid_station_text (scrub msg2) else False)
          (scrub msg2) b (time_str_of b) (dict_get d (ascii ''arvlCd'') (JStr []))))"
    and cu: "current info \<noteq> []"
    by (rule parse_train_info_Inr)
  have "(if scrub msg2 \<noteq> [] then is_valid_station_text (scrub msg2) else False) \<longrightarrow> scrub msg2 \<noteq> []"
    by simp
  from status_and_time_nonempty [OF time_str_nonempty this]
  show ?thesis using st ti cu by (simp add: final_filter_nonempty)
qed

lemma absent_direction_defaulted:
  assumes "parse_train_info repr (JObj d) = Inr info"
    and "map_of d (ascii ''bstatnNm'') = None"
  shows "direction info = JStr k_al_su_eopseum"
proof -
  from assms(1) obtain d' where "JObj d = JObj d'"
    and "direction info = dict_get d' (ascii ''bstatnNm'') (JStr k_al_su_eopseum)"
    by (rule parse_train_info_Inr)
  with assms(2) show ?thesis by (simp add: dict_get_def)
qed

end
